theory Spec2Isabelle
  imports Main "HOL-Library.Word"
begin

section \<open>The transaction coordinator of \<^verbatim>\<open>dev/src/transaction.ts\<close>\<close>

text \<open>
  A shallow embedding of the class \<^verbatim>\<open>Transaction\<close> and of the functions
  \<^verbatim>\<open>parseGetAllArguments\<close>, \<^verbatim>\<open>validateReadOptions\<close> and
  \<^verbatim>\<open>isRetryableTransactionError\<close>. A thrown exception is a value (\<open>Throws\<close>, or
  \<open>Some\<close> of an optional error); a promise is its settlement; every call the class makes
  to a collaborator (the RPC channel, the document reader, the backoff policy) is appended to
  the field \<open>trace\<close> of the transaction, oldest first. Calls to \<^verbatim>\<open>logger\<close> are
  left out: they neither change the state nor throw.
\<close>

subsection \<open>Values, errors and status codes\<close>

text \<open>The members of \<^verbatim>\<open>Status\<close> (google-gax), in the order of their numeric values 0 to 16.\<close>

datatype status =
    OK | CANCELLED | UNKNOWN | INVALID_ARGUMENT | DEADLINE_EXCEEDED | NOT_FOUND
  | ALREADY_EXISTS | PERMISSION_DENIED | RESOURCE_EXHAUSTED | FAILED_PRECONDITION
  | ABORTED | OUT_OF_RANGE | UNIMPLEMENTED | INTERNAL | UNAVAILABLE | DATA_LOSS
  | UNAUTHENTICATED

text \<open>
  An \<^verbatim>\<open>Error\<close> object: its message and its optional \<^verbatim>\<open>code\<close>
  (\<^verbatim>\<open>GoogleError.code?: Status\<close>). \<^verbatim>\<open>new Error(msg)\<close> is \<open>Error msg None\<close>.
\<close>

datatype js_error = Error (message: string) (code: "status option")

datatype field_path = FieldPath "string list"

text \<open>
  The JavaScript values that can reach \<^verbatim>\<open>get\<close> and \<^verbatim>\<open>getAll\<close>. A
  \<^verbatim>\<open>DocumentReference\<close> and a \<^verbatim>\<open>Query\<close> are identified by a path; a plain
  object is the list of its own properties.
\<close>

datatype js_value =
    JUndefined | JNull | JBoolean bool | JNumber int | JString string
  | JArray "js_value list"
  | JPlainObject "(string \<times> js_value) list"
  | JDocumentReference string
  | JQuery string
  | JFieldPath field_path

fun truthy :: "js_value \<Rightarrow> bool" where
  "truthy JUndefined = False"
| "truthy JNull = False"
| "truthy (JBoolean b) = b"
| "truthy (JNumber n) = (n \<noteq> 0)"
| "truthy (JString s) = (s \<noteq> [])"
| "truthy _ = True"

fun isArray :: "js_value \<Rightarrow> bool" where
  "isArray (JArray xs) = True"
| "isArray _ = False"

fun elements :: "js_value \<Rightarrow> js_value list" where
  "elements (JArray xs) = xs"
| "elements _ = []"

text \<open>Property access \<^verbatim>\<open>value[name]\<close>: \<^verbatim>\<open>undefined\<close> for a property that is not there.\<close>

fun property :: "js_value \<Rightarrow> string \<Rightarrow> js_value" where
  "property (JPlainObject kvs) name = (case map_of kvs name of None \<Rightarrow> JUndefined | Some v \<Rightarrow> v)"
| "property _ name = JUndefined"

text \<open>Indexing \<^verbatim>\<open>xs[i]\<close>: \<^verbatim>\<open>undefined\<close> out of range.\<close>

definition at_index :: "js_value list \<Rightarrow> nat \<Rightarrow> js_value" where
  "at_index xs i = (if i < length xs then xs ! i else JUndefined)"

text \<open>The decimal digits of an index, as a template literal prints a number.\<close>

fun string_of_nat :: "nat \<Rightarrow> string" where
  "string_of_nat n =
     (let digit = ''0123456789'' ! (n mod 10)
      in if n div 10 = 0 then [digit] else string_of_nat (n div 10) @ [digit])"

subsection \<open>Helpers imported from \<^verbatim>\<open>util\<close>, \<^verbatim>\<open>validate\<close>, \<^verbatim>\<open>reference\<close> and \<^verbatim>\<open>path\<close>\<close>

text \<open>
  Modelled from the spec: \<^verbatim>\<open>isPlainObject\<close> and \<^verbatim>\<open>isObject\<close> of
  \<^verbatim>\<open>util.ts\<close>, which is not among the sources. The spec calls the trailing argument of
  \<^verbatim>\<open>getAll\<close> "a plain options object (not a document reference)": a plain object is
  an object literal, and an object is a plain object or an instance of a class; arrays,
  \<^verbatim>\<open>null\<close> and primitive values are neither.
\<close>

fun isPlainObject :: "js_value \<Rightarrow> bool" where
  "isPlainObject (JPlainObject kvs) = True"
| "isPlainObject _ = False"

fun isObject :: "js_value \<Rightarrow> bool" where
  "isObject (JPlainObject kvs) = True"
| "isObject (JDocumentReference p) = True"
| "isObject (JQuery q) = True"
| "isObject (JFieldPath p) = True"
| "isObject _ = False"

text \<open>
  Modelled from the spec: \<^verbatim>\<open>invalidArgumentMessage\<close>,
  \<^verbatim>\<open>validateMinNumberOfArguments\<close> and \<^verbatim>\<open>validateOptional\<close> of
  \<^verbatim>\<open>validate.ts\<close>, which is not among the sources. The spec names the positional index
  as part of the message of a rejected argument; the wording of the messages is not given
  there, and no theorem below depends on it. \<^verbatim>\<open>validateMinNumberOfArguments\<close> receives
  the \<^verbatim>\<open>arguments\<close> object of the caller and the minimum, and throws when there are
  fewer arguments than that. An argument is optional when it may be \<^verbatim>\<open>undefined\<close>.
\<close>

datatype arg = ArgName string | ArgIndex nat

definition invalidArgumentMessage :: "arg \<Rightarrow> string \<Rightarrow> string" where
  \<open>invalidArgumentMessage a expectedType =
     (case a of
        ArgName n \<Rightarrow> ''Value for argument "'' @ n @ ''"''
      | ArgIndex i \<Rightarrow> ''Element at index '' @ string_of_nat i)
     @ '' is not a valid '' @ expectedType @ ''.''\<close>

definition validateMinNumberOfArguments ::
  "string \<Rightarrow> js_value list \<Rightarrow> nat \<Rightarrow> js_error option" where
  \<open>validateMinNumberOfArguments funcName args minSize =
     (if length args < minSize
      then Some (Error (''Function "'' @ funcName @ ''()" requires at least ''
                        @ string_of_nat minSize
                        @ (if minSize = 1 then '' argument.'' else '' arguments.'')) None)
      else None)\<close>

definition validateOptional :: "js_value \<Rightarrow> bool \<Rightarrow> bool" where
  "validateOptional v optional = (v = JUndefined \<and> optional)"

text \<open>
  Modelled from the spec: \<^verbatim>\<open>validateDocumentReference\<close> of \<^verbatim>\<open>reference.ts\<close>,
  which is not among the sources. "Every remaining argument must be a valid document
  reference (fails with InvalidArgument, including positional index, otherwise)."
\<close>

definition validateDocumentReference :: "nat \<Rightarrow> js_value \<Rightarrow> js_error option" where
  "validateDocumentReference i v =
     (case v of
        JDocumentReference p \<Rightarrow> None
      | _ \<Rightarrow> Some (Error (invalidArgumentMessage (ArgIndex i) ''DocumentReference'') None))"

text \<open>
  Modelled from the spec: \<^verbatim>\<open>validateFieldPath\<close> and \<^verbatim>\<open>FieldPath.fromArgument\<close>
  of \<^verbatim>\<open>path.ts\<close>, which is not among the sources. "Each entry must be convertible to a
  field path (string or path-segment list)": a \<^verbatim>\<open>FieldPath\<close> is kept, a string becomes
  the path of its dot-separated segments, anything else is rejected. The parser's checks on
  the characters of a string are outside the spec and are not modelled.
\<close>

fun split_dots :: "string \<Rightarrow> string \<Rightarrow> string list" where
  "split_dots acc [] = [rev acc]"
| "split_dots acc (c # cs) =
     (if c = CHR ''.'' then rev acc # split_dots [] cs else split_dots (c # acc) cs)"

definition validateFieldPath :: "arg \<Rightarrow> js_value \<Rightarrow> js_error option" where
  "validateFieldPath a v =
     (case v of
        JFieldPath p \<Rightarrow> None
      | JString s \<Rightarrow> None
      | _ \<Rightarrow> Some (Error (invalidArgumentMessage a ''field path''
                @ '' Paths can only be specified as strings or via a FieldPath object.'') None))"

fun fromArgument :: "js_value \<Rightarrow> field_path" where
  "fromArgument (JFieldPath p) = p"
| "fromArgument (JString s) = FieldPath (split_dots [] s)"
| "fromArgument _ = FieldPath []"

subsection \<open>\<^verbatim>\<open>validateReadOptions\<close> and \<^verbatim>\<open>parseGetAllArguments\<close>\<close>

text \<open>
  The loop over \<^verbatim>\<open>options.fieldMask\<close> (lines 420 to 431): the first entry that
  \<^verbatim>\<open>validateFieldPath\<close> rejects is rethrown with the message of the outer argument.
\<close>

fun validateFieldMask :: "arg \<Rightarrow> nat \<Rightarrow> js_value list \<Rightarrow> js_error option" where
  \<open>validateFieldMask a i [] = None\<close>
| \<open>validateFieldMask a i (x # xs) =
     (case validateFieldPath (ArgIndex i) x of
        Some err \<Rightarrow>
          Some (Error (invalidArgumentMessage a ''read option''
                       @ '' "fieldMask" is not valid: '' @ message err) None)
      | None \<Rightarrow> validateFieldMask a (Suc i) xs)\<close>

text \<open>
  \<^verbatim>\<open>validateReadOptions\<close> (lines 396 to 434); \<open>optional\<close> is
  \<^verbatim>\<open>options.optional\<close>. The template literal of line 404 ends with a single quote before
  its closing backtick, so the message does.
\<close>

definition validateReadOptions :: "arg \<Rightarrow> js_value \<Rightarrow> bool \<Rightarrow> js_error option" where
  \<open>validateReadOptions a v optional =
     (if \<not> validateOptional v optional then
        if \<not> isObject v then
          Some (Error (invalidArgumentMessage a ''read option''
                       @ '' Input is not an object.'' @ [CHR 0x27]) None)
        else if property v ''fieldMask'' \<noteq> JUndefined then
          if \<not> isArray (property v ''fieldMask'') then
            Some (Error (invalidArgumentMessage a ''read option''
                         @ '' "fieldMask" is not an array.'') None)
          else validateFieldMask a 0 (elements (property v ''fieldMask''))
        else None
      else None)\<close>

text \<open>The loop of lines 373 to 375: the first argument that is not a reference throws.\<close>

fun validateDocumentReferences :: "nat \<Rightarrow> js_value list \<Rightarrow> js_error option" where
  "validateDocumentReferences i [] = None"
| "validateDocumentReferences i (d # ds) =
     (case validateDocumentReference i d of
        Some e \<Rightarrow> Some e
      | None \<Rightarrow> validateDocumentReferences (Suc i) ds)"

record parsed_arguments =
  documents :: "js_value list"
  fieldMask :: "field_path list option"

definition parseGetAllArguments :: "js_value list \<Rightarrow> js_error + parsed_arguments" where
  "parseGetAllArguments documentRefsOrReadOptions =
     (if isArray (at_index documentRefsOrReadOptions 0) then
        Inl (Error (''getAll() no longer accepts an array as its first argument. ''
                    @ ''Please unpack your array and call getAll() with individual arguments.'')
               None)
      else
        let (readOptions, docs) =
              (if length documentRefsOrReadOptions > 0
                  \<and> isPlainObject (last documentRefsOrReadOptions)
               then (last documentRefsOrReadOptions, butlast documentRefsOrReadOptions)
               else (JUndefined, documentRefsOrReadOptions))
        in case validateDocumentReferences 0 docs of
             Some e \<Rightarrow> Inl e
           | None \<Rightarrow>
              (case validateReadOptions (ArgName ''options'') readOptions True of
                 Some e \<Rightarrow> Inl e
               | None \<Rightarrow>
                   Inr \<lparr> documents = docs,
                         fieldMask =
                           (if truthy readOptions \<and> truthy (property readOptions ''fieldMask'')
                            then Some (map fromArgument (elements (property readOptions ''fieldMask'')))
                            else None) \<rparr>))"

subsection \<open>The transaction and the calls it makes\<close>

type_synonym bytes = "8 word list"

text \<open>
  Modelled from the spec: the write accumulator \<^verbatim>\<open>UpdateBuilder\<close>, the base class of
  \<^verbatim>\<open>Transaction\<close>, which is not among the sources. It "buffers create/set/update/delete
  operations and reports whether any have been recorded" (\<^verbatim>\<open>isEmpty\<close>), it is cleared at
  the start of every attempt (\<^verbatim>\<open>_reset\<close>), and its commit (\<^verbatim>\<open>commit_\<close>) "issues
  a commit request carrying the transaction handle, the request tag, and the full Pending
  Write Set" and "propagates RPC failures unchanged".
\<close>

datatype write_op =
    WCreate string js_value | WSet string js_value | WUpdate string js_value | WDelete string

text \<open>
  A call to a collaborator, with the arguments the source passes: the RPCs
  \<^verbatim>\<open>beginTransaction\<close> (database, \<^verbatim>\<open>retryTransaction\<close> when there is one, request
  tag), \<^verbatim>\<open>commit\<close> and \<^verbatim>\<open>rollback\<close>, the reads
  \<^verbatim>\<open>Firestore.getAll_\<close> and \<^verbatim>\<open>Query._get\<close>, and the two operations of
  \<^verbatim>\<open>ExponentialBackoff\<close>.
\<close>

datatype event =
    BeginTransactionRequest string "bytes option" string
  | CommitRequest "bytes option" string "write_op list"
  | RollbackRequest string "bytes option" string
  | GetAllRequest "js_value list" "field_path list option" string "bytes option"
  | QueryGetRequest string "bytes option"
  | BackoffResetToMax
  | BackoffAndWait

record transaction =
  formattedName :: string
  requestTag :: string
  transactionId :: "bytes option"
  ops :: "write_op list"
  trace :: "event list"

definition emit :: "event \<Rightarrow> transaction \<Rightarrow> transaction" where
  "emit e t = t\<lparr>trace := trace t @ [e]\<rparr>"

definition isEmpty :: "transaction \<Rightarrow> bool" where
  "isEmpty t = (ops t = [])"

definition reset :: "transaction \<Rightarrow> transaction" where
  "reset t = t\<lparr>ops := []\<rparr>"

definition record_write :: "write_op \<Rightarrow> transaction \<Rightarrow> transaction" where
  "record_write w t = t\<lparr>ops := ops t @ [w]\<rparr>"

text \<open>The constructor (lines 78 to 82): no identifier yet, nothing written, nothing called.\<close>

definition new_transaction :: "string \<Rightarrow> string \<Rightarrow> transaction" where
  "new_transaction firestoreName tag =
     \<lparr> formattedName = firestoreName, requestTag = tag, transactionId = None,
       ops = [], trace = [] \<rparr>"

definition READ_AFTER_WRITE_ERROR_MSG :: string where
  "READ_AFTER_WRITE_ERROR_MSG =
     ''Firestore transactions require all reads to be executed before all writes.''"

text \<open>
  \<^verbatim>\<open>get\<close> and \<^verbatim>\<open>getAll\<close> are not \<^verbatim>\<open>async\<close>: they either throw to their
  caller before anything is awaited, or return the promise of the read they have issued.
\<close>

datatype call_result = Throws js_error | ReturnsPromise

definition get :: "js_value \<Rightarrow> transaction \<Rightarrow> call_result \<times> transaction" where
  \<open>get refOrQuery t =
     (if \<not> isEmpty t then (Throws (Error READ_AFTER_WRITE_ERROR_MSG None), t)
      else case refOrQuery of
             JDocumentReference p \<Rightarrow>
               (ReturnsPromise,
                emit (GetAllRequest [refOrQuery] None (requestTag t) (transactionId t)) t)
           | JQuery q \<Rightarrow> (ReturnsPromise, emit (QueryGetRequest q (transactionId t)) t)
           | _ \<Rightarrow>
               (Throws (Error
                  ''Value for argument "refOrQuery" must be a DocumentReference or a Query.''
                  None), t))\<close>

definition getAll :: "js_value list \<Rightarrow> transaction \<Rightarrow> call_result \<times> transaction" where
  "getAll documentRefsOrReadOptions t =
     (if \<not> isEmpty t then (Throws (Error READ_AFTER_WRITE_ERROR_MSG None), t)
      else case validateMinNumberOfArguments ''Transaction.getAll'' documentRefsOrReadOptions 1 of
             Some e \<Rightarrow> (Throws e, t)
           | None \<Rightarrow>
              (case parseGetAllArguments documentRefsOrReadOptions of
                 Inl e \<Rightarrow> (Throws e, t)
               | Inr r \<Rightarrow>
                   (ReturnsPromise,
                    emit (GetAllRequest (documents r) (fieldMask r) (requestTag t) (transactionId t)) t)))"

text \<open>
  The three RPCs of the session. The reply of the server is an argument: an error, or for
  \<^verbatim>\<open>beginTransaction\<close> the identifier of the new transaction. \<^verbatim>\<open>begin\<close> sends
  \<^verbatim>\<open>retryTransaction\<close> when an identifier is already there and stores the one it receives.
\<close>

definition begin_tx :: "js_error + bytes \<Rightarrow> transaction \<Rightarrow> js_error option \<times> transaction" where
  "begin_tx reply t =
     (let t' = emit (BeginTransactionRequest (formattedName t) (transactionId t) (requestTag t)) t
      in case reply of
           Inl e \<Rightarrow> (Some e, t')
         | Inr tid \<Rightarrow> (None, t'\<lparr>transactionId := Some tid\<rparr>))"

definition commit :: "js_error option \<Rightarrow> transaction \<Rightarrow> js_error option \<times> transaction" where
  "commit reply t = (reply, emit (CommitRequest (transactionId t) (requestTag t) (ops t)) t)"

definition rollback :: "js_error option \<Rightarrow> transaction \<Rightarrow> js_error option \<times> transaction" where
  "rollback reply t =
     (reply, emit (RollbackRequest (formattedName t) (transactionId t) (requestTag t)) t)"

text \<open>
  Modelled from the spec: \<^verbatim>\<open>ExponentialBackoff\<close> of \<^verbatim>\<open>backoff.ts\<close>, which is not
  among the sources. It "exposes wait for next interval and reset to maximum"; the two calls
  are recorded in the trace, and the delays they stand for are given further down.
\<close>

definition maybeBackoff :: "js_error option \<Rightarrow> transaction \<Rightarrow> transaction" where
  "maybeBackoff error t =
     emit BackoffAndWait
       (if (case error of None \<Rightarrow> False | Some e \<Rightarrow> code e = Some RESOURCE_EXHAUSTED)
        then emit BackoffResetToMax t else t)"

fun isRetryableTransactionError :: "js_error \<Rightarrow> bool" where
  "isRetryableTransactionError (Error m None) = False"
| "isRetryableTransactionError (Error m (Some c)) =
     (case c of
        ABORTED \<Rightarrow> True
      | CANCELLED \<Rightarrow> True
      | UNKNOWN \<Rightarrow> True
      | DEADLINE_EXCEEDED \<Rightarrow> True
      | INTERNAL \<Rightarrow> True
      | UNAVAILABLE \<Rightarrow> True
      | UNAUTHENTICATED \<Rightarrow> True
      | RESOURCE_EXHAUSTED \<Rightarrow> True
      | _ \<Rightarrow> False)"

subsection \<open>The work function and the server\<close>

text \<open>
  \<^verbatim>\<open>updateFunction\<close> is the caller's. One invocation of it is described by the calls
  it makes on the transaction, in order, and by the way it ends: it returns a value that is
  not a promise, throws, or returns a promise that is fulfilled or rejected. A call that
  throws (a read after a write) does not end the invocation by itself: the function may catch
  it. The function is invoked once in each attempt and may act differently each time, so
  it is given as a map from the index of the attempt to the invocation.
\<close>

datatype call = CallGet js_value | CallGetAll "js_value list" | CallWrite write_op

datatype 'v callback = ReturnsPlain 'v | ThrowsSync js_error | Resolves 'v | Rejects js_error

type_synonym 'v update_function = "nat \<Rightarrow> call list \<times> 'v callback"

fun run_call :: "call \<Rightarrow> transaction \<Rightarrow> transaction" where
  "run_call (CallGet refOrQuery) t = snd (get refOrQuery t)"
| "run_call (CallGetAll args) t = snd (getAll args t)"
| "run_call (CallWrite w) t = record_write w t"

fun run_calls :: "call list \<Rightarrow> transaction \<Rightarrow> transaction" where
  "run_calls [] t = t"
| "run_calls (c # cs) t = run_calls cs (run_call c t)"

text \<open>The replies of the server to the RPCs of each attempt.\<close>

record server =
  beginReply :: "nat \<Rightarrow> js_error + bytes"
  commitReply :: "nat \<Rightarrow> js_error option"
  rollbackReply :: "nat \<Rightarrow> js_error option"

subsection \<open>\<^verbatim>\<open>runTransaction\<close>\<close>

datatype 'v settled = Resolved 'v | Rejected "js_error option"

text \<open>
  The \<^verbatim>\<open>try\<close> block of lines 289 to 298: the error that reaches the \<^verbatim>\<open>catch\<close>,
  or the result after a successful commit.
\<close>

definition try_block ::
  "js_error option \<Rightarrow> call list \<times> 'v callback \<Rightarrow> transaction \<Rightarrow> (js_error + 'v) \<times> transaction"
where
  "try_block commit_reply invocation t =
     (let t1 = run_calls (fst invocation) t
      in case snd invocation of
           ThrowsSync e \<Rightarrow> (Inl e, t1)
         | ReturnsPlain v \<Rightarrow>
             (Inl (Error ''You must return a Promise in your transaction()-callback.'' None), t1)
         | Rejects e \<Rightarrow> (Inl e, t1)
         | Resolves v \<Rightarrow>
             (case commit commit_reply t1 of
                (Some e, t2) \<Rightarrow> (Inl e, t2)
              | (None, t2) \<Rightarrow> (Inr v, t2)))"

text \<open>
  The \<^verbatim>\<open>for\<close> loop of lines 274 to 315 and what follows it. A failed
  \<^verbatim>\<open>begin\<close> is outside the \<^verbatim>\<open>try\<close> and a failed \<^verbatim>\<open>rollback\<close> is inside the
  \<^verbatim>\<open>catch\<close>: both reject the promise of \<^verbatim>\<open>runTransaction\<close> at once. The rejection
  value \<open>None\<close> is \<^verbatim>\<open>undefined\<close>. \<^verbatim>\<open>maxAttempts\<close> is an integer, of either sign;
  the counter \<^verbatim>\<open>attempt\<close> starts at 0 and only grows.
\<close>

function runTransaction_loop ::
  "server \<Rightarrow> 'v update_function \<Rightarrow> int \<Rightarrow> nat \<Rightarrow> js_error option \<Rightarrow> transaction
     \<Rightarrow> 'v settled \<times> transaction"
where
  "runTransaction_loop srv updateFunction maxAttempts attempt lastError t =
     (if int attempt < maxAttempts then
        (case begin_tx (beginReply srv attempt) (maybeBackoff lastError (reset t)) of
           (Some e, t1) \<Rightarrow> (Rejected (Some e), t1)
         | (None, t1) \<Rightarrow>
            (case try_block (commitReply srv attempt) (updateFunction attempt) t1 of
               (Inr result, t2) \<Rightarrow> (Resolved result, t2)
             | (Inl err, t2) \<Rightarrow>
                (case rollback (rollbackReply srv attempt) t2 of
                   (Some e, t3) \<Rightarrow> (Rejected (Some e), t3)
                 | (None, t3) \<Rightarrow>
                     if isRetryableTransactionError err
                     then runTransaction_loop srv updateFunction maxAttempts (Suc attempt)
                            (Some err) t3
                     else (Rejected (Some err), t3))))
      else (Rejected lastError, t))"
  by pat_completeness auto
termination
  by (relation "measure (\<lambda>(srv, f, maxAttempts, attempt, lastError, t). nat (maxAttempts - int attempt))")
     auto

definition runTransaction ::
  "server \<Rightarrow> 'v update_function \<Rightarrow> int \<Rightarrow> transaction \<Rightarrow> 'v settled \<times> transaction"
where
  "runTransaction srv updateFunction maxAttempts t =
     runTransaction_loop srv updateFunction maxAttempts 0 None t"

declare runTransaction_loop.simps [simp del]

subsection \<open>Vocabulary of the statements\<close>

text \<open>
  The events a call has added to the trace, and among them the three RPCs that make the
  lifecycle of an attempt, in order.
\<close>

definition emitted :: "transaction \<Rightarrow> transaction \<Rightarrow> event list" where
  "emitted t t' = drop (length (trace t)) (trace t')"

datatype rpc = BeginRpc | CommitRpc | RollbackRpc

fun rpc_of :: "event \<Rightarrow> rpc list" where
  "rpc_of (BeginTransactionRequest db retry tag) = [BeginRpc]"
| "rpc_of (CommitRequest tid tag ws) = [CommitRpc]"
| "rpc_of (RollbackRequest db tid tag) = [RollbackRpc]"
| "rpc_of _ = []"

definition rpcs :: "event list \<Rightarrow> rpc list" where
  "rpcs evs = concat (map rpc_of evs)"

fun is_read :: "event \<Rightarrow> bool" where
  "is_read (GetAllRequest docs fm tag tid) = True"
| "is_read (QueryGetRequest q tid) = True"
| "is_read _ = False"

text \<open>
  The error with which an invocation of the work function itself fails, and the error that
  reaches the \<^verbatim>\<open>catch\<close> block of an attempt: the former, the error of line 292 for a
  result that is not a promise, or the error of the commit.
\<close>

fun work_error :: "'v callback \<Rightarrow> js_error option" where
  "work_error (ThrowsSync e) = Some e"
| "work_error (Rejects e) = Some e"
| "work_error _ = None"

fun commits :: "'v callback \<Rightarrow> bool" where
  "commits (Resolves v) = True"
| "commits _ = False"

definition caught :: "js_error option \<Rightarrow> 'v callback \<Rightarrow> js_error option" where
  "caught commit_reply cb =
     (case cb of
        ThrowsSync e \<Rightarrow> Some e
      | ReturnsPlain v \<Rightarrow>
          Some (Error ''You must return a Promise in your transaction()-callback.'' None)
      | Rejects e \<Rightarrow> Some e
      | Resolves v \<Rightarrow> commit_reply)"

text \<open>The calls \<^verbatim>\<open>maybeBackoff\<close> makes, and the states an attempt goes through.\<close>

definition backoff_calls :: "js_error option \<Rightarrow> event list" where
  "backoff_calls lastError =
     (if (case lastError of None \<Rightarrow> False | Some e \<Rightarrow> code e = Some RESOURCE_EXHAUSTED)
      then [BackoffResetToMax, BackoffAndWait] else [BackoffAndWait])"

definition begun :: "server \<Rightarrow> nat \<Rightarrow> js_error option \<Rightarrow> transaction \<Rightarrow> transaction" where
  "begun srv attempt lastError t =
     snd (begin_tx (beginReply srv attempt) (maybeBackoff lastError (reset t)))"

definition tried ::
  "server \<Rightarrow> 'v update_function \<Rightarrow> nat \<Rightarrow> js_error option \<Rightarrow> transaction \<Rightarrow> transaction" where
  "tried srv f attempt lastError t =
     snd (try_block (commitReply srv attempt) (f attempt) (begun srv attempt lastError t))"

definition rolled_back ::
  "server \<Rightarrow> 'v update_function \<Rightarrow> nat \<Rightarrow> js_error option \<Rightarrow> transaction \<Rightarrow> transaction" where
  "rolled_back srv f attempt lastError t =
     snd (rollback (rollbackReply srv attempt) (tried srv f attempt lastError t))"





subsection \<open>Example servers and work functions\<close>

definition reliable_server :: server where
  "reliable_server =
     \<lparr> beginReply = (\<lambda>i. Inr [of_nat i]), commitReply = (\<lambda>i. None),
       rollbackReply = (\<lambda>i. None) \<rparr>"

definition rollback_error :: js_error where
  "rollback_error = Error ''rollback failed'' (Some INTERNAL)"

definition failing_rollback_server :: server where
  "failing_rollback_server =
     \<lparr> beginReply = (\<lambda>i. Inr [of_nat i]), commitReply = (\<lambda>i. None),
       rollbackReply = (\<lambda>i. Some rollback_error) \<rparr>"

definition denied_error :: js_error where
  "denied_error = Error ''permission denied'' (Some PERMISSION_DENIED)"

definition unavailable_error :: js_error where
  "unavailable_error = Error ''unavailable'' (Some UNAVAILABLE)"

definition exhausted_error :: js_error where
  "exhausted_error = Error ''quota'' (Some RESOURCE_EXHAUSTED)"

definition always_denied :: "nat update_function" where
  "always_denied = (\<lambda>i. ([CallGet (JDocumentReference ''col/doc'')], Rejects denied_error))"

definition always_unavailable :: "nat update_function" where
  "always_unavailable =
     (\<lambda>i. ([CallGet (JDocumentReference ''col/doc''), CallWrite (WDelete ''col/doc'')],
           if i = 1 then ThrowsSync unavailable_error else Rejects unavailable_error))"

definition exhausted_then_done :: "nat update_function" where
  "exhausted_then_done =
     (\<lambda>i. ([CallWrite (WSet ''col/doc'' (JNumber 1))],
           if i = 0 then Rejects exhausted_error else Resolves 7))"

definition returns_plain :: "nat update_function" where
  "returns_plain = (\<lambda>i. ([CallWrite (WDelete ''col/doc'')], ReturnsPlain 7))"

definition aborted_error :: js_error where
  "aborted_error = Error ''aborted'' (Some ABORTED)"

definition always_aborted :: "nat update_function" where
  "always_aborted = (\<lambda>i. ([], Rejects aborted_error))"


section \<open>Properties\<close>

subsection \<open>The trace of the calls\<close>

lemma emitted_append: "trace t' = trace t @ evs \<Longrightarrow> emitted t t' = evs"
  by (simp add: emitted_def)

lemma rpcs_append [simp]: "rpcs (xs @ ys) = rpcs xs @ rpcs ys"
  by (simp add: rpcs_def)

lemma rpcs_Nil [simp]: "rpcs [] = []"
  by (simp add: rpcs_def)

lemma rpcs_Cons [simp]: "rpcs (e # evs) = rpc_of e @ rpcs evs"
  by (simp add: rpcs_def)

lemma reads_counts:
  "list_all is_read rs \<Longrightarrow> count_list rs BackoffAndWait = 0 \<and> rpcs rs = []"
  by (induction rs) (auto elim: is_read.elims)

lemma emit_simps [simp]:
  "trace (emit e t) = trace t @ [e]"
  "ops (emit e t) = ops t"
  "transactionId (emit e t) = transactionId t"
  "requestTag (emit e t) = requestTag t"
  "formattedName (emit e t) = formattedName t"
  by (simp_all add: emit_def)

lemma get_cases:
  "get x t = (r, t') \<Longrightarrow>
     ops t' = ops t \<and> transactionId t' = transactionId t \<and> requestTag t' = requestTag t
     \<and> formattedName t' = formattedName t
     \<and> (\<exists>rs. trace t' = trace t @ rs \<and> list_all is_read rs)"
  by (auto simp: get_def split: if_splits js_value.splits)

lemma getAll_cases:
  "getAll args t = (r, t') \<Longrightarrow>
     ops t' = ops t \<and> transactionId t' = transactionId t \<and> requestTag t' = requestTag t
     \<and> formattedName t' = formattedName t
     \<and> (\<exists>rs. trace t' = trace t @ rs \<and> list_all is_read rs)"
  by (auto simp: getAll_def split: if_splits option.splits sum.splits)

lemma run_call_fields [simp]:
  "transactionId (run_call c t) = transactionId t"
  "requestTag (run_call c t) = requestTag t"
  "formattedName (run_call c t) = formattedName t"
  using get_cases[OF surjective_pairing] getAll_cases[OF surjective_pairing]
  by (cases c; simp add: record_write_def)+

lemma run_call_trace: "\<exists>rs. trace (run_call c t) = trace t @ rs \<and> list_all is_read rs"
  using get_cases[OF surjective_pairing] getAll_cases[OF surjective_pairing]
  by (cases c) (simp_all add: record_write_def)

lemma run_call_ops: "ops t \<noteq> [] \<Longrightarrow> ops (run_call c t) \<noteq> []"
  using get_cases[OF surjective_pairing] getAll_cases[OF surjective_pairing]
  by (cases c) (simp_all add: record_write_def)

lemma run_calls_fields [simp]:
  "transactionId (run_calls cs t) = transactionId t"
  "requestTag (run_calls cs t) = requestTag t"
  "formattedName (run_calls cs t) = formattedName t"
  by (induction cs arbitrary: t; simp)+

lemma run_calls_trace: "\<exists>rs. trace (run_calls cs t) = trace t @ rs \<and> list_all is_read rs"
proof (induction cs arbitrary: t)
  case Nil
  then show ?case by simp
next
  case (Cons c cs)
  obtain rs where rs: "trace (run_call c t) = trace t @ rs" "list_all is_read rs"
    using run_call_trace by blast
  obtain rs' where rs': "trace (run_calls cs (run_call c t)) = trace (run_call c t) @ rs'"
      "list_all is_read rs'"
    using Cons.IH by blast
  show ?case
    using rs rs' by (intro exI[of _ "rs @ rs'"]) simp
qed

lemma run_calls_ops: "ops t \<noteq> [] \<Longrightarrow> ops (run_calls cs t) \<noteq> []"
  by (induction cs arbitrary: t) (simp_all add: run_call_ops)

lemma run_calls_append: "run_calls (cs @ cs') t = run_calls cs' (run_calls cs t)"
  by (induction cs arbitrary: t) simp_all

lemma write_recorded: "\<not> isEmpty (run_calls (cs @ CallWrite w # cs') t)"
  by (simp add: run_calls_append isEmpty_def run_calls_ops record_write_def)

subsection \<open>One attempt\<close>

lemma maybeBackoff_trace: "trace (maybeBackoff lastError t) = trace t @ backoff_calls lastError"
  by (simp add: maybeBackoff_def backoff_calls_def)

lemma maybeBackoff_fields [simp]:
  "transactionId (maybeBackoff le t) = transactionId t"
  "requestTag (maybeBackoff le t) = requestTag t"
  "formattedName (maybeBackoff le t) = formattedName t"
  "ops (maybeBackoff le t) = ops t"
  by (simp_all add: maybeBackoff_def)

lemma reset_fields [simp]:
  "transactionId (reset t) = transactionId t"
  "requestTag (reset t) = requestTag t"
  "formattedName (reset t) = formattedName t"
  "trace (reset t) = trace t"
  "ops (reset t) = []"
  by (simp_all add: reset_def)

lemma backoff_calls_counts [simp]:
  "count_list (backoff_calls le) BackoffAndWait = 1"
  "rpcs (backoff_calls le) = []"
  by (simp_all add: backoff_calls_def)

lemma begun_trace:
  "trace (begun srv attempt le t) =
     trace t @ backoff_calls le
     @ [BeginTransactionRequest (formattedName t) (transactionId t) (requestTag t)]"
  by (simp add: begun_def begin_tx_def maybeBackoff_trace Let_def split: sum.splits)

lemma begun_fields [simp]:
  "requestTag (begun srv attempt le t) = requestTag t"
  "formattedName (begun srv attempt le t) = formattedName t"
  by (simp_all add: begun_def begin_tx_def Let_def split: sum.splits)

lemma begun_transactionId:
  "beginReply srv attempt = Inr tid \<Longrightarrow> transactionId (begun srv attempt le t) = Some tid"
  by (simp add: begun_def begin_tx_def Let_def)

lemma try_block_caught:
  "caught cr (snd uf) = Some e \<Longrightarrow> fst (try_block cr uf t) = Inl e"
  by (simp add: try_block_def caught_def commit_def Let_def split: callback.splits option.splits)

lemma try_block_committed:
  "snd uf = Resolves v \<Longrightarrow> cr = None \<Longrightarrow> fst (try_block cr uf t) = Inr v"
  by (simp add: try_block_def commit_def Let_def)

lemma try_block_fields [simp]:
  "transactionId (snd (try_block cr uf t)) = transactionId t"
  "requestTag (snd (try_block cr uf t)) = requestTag t"
  "formattedName (snd (try_block cr uf t)) = formattedName t"
  by (simp_all add: try_block_def commit_def Let_def split: callback.splits option.splits)

lemma try_block_trace:
  "\<exists>rs. list_all is_read rs \<and>
     trace (snd (try_block cr uf t)) =
       trace t @ rs @ (if commits (snd uf)
                       then [CommitRequest (transactionId t) (requestTag t)
                               (ops (run_calls (fst uf) t))]
                       else [])"
proof -
  obtain rs where rs: "trace (run_calls (fst uf) t) = trace t @ rs" "list_all is_read rs"
    using run_calls_trace by blast
  show ?thesis
    using rs
    by (intro exI[of _ rs])
       (simp add: try_block_def commit_def Let_def split: callback.splits option.splits)
qed

lemma tried_trace:
  "\<exists>rs. list_all is_read rs \<and>
     trace (tried srv f attempt le t) =
       trace (begun srv attempt le t) @ rs
       @ (if commits (snd (f attempt))
          then [CommitRequest (transactionId (begun srv attempt le t)) (requestTag t)
                  (ops (run_calls (fst (f attempt)) (begun srv attempt le t)))]
          else [])"
  unfolding tried_def
  using try_block_trace[of "commitReply srv attempt" "f attempt" "begun srv attempt le t"]
  by (cases "commits (snd (f attempt))") auto

lemma rolled_back_trace:
  "\<exists>rs. list_all is_read rs \<and>
     trace (rolled_back srv f attempt le t) =
       trace (begun srv attempt le t) @ rs
       @ (if commits (snd (f attempt))
          then [CommitRequest (transactionId (begun srv attempt le t)) (requestTag t)
                  (ops (run_calls (fst (f attempt)) (begun srv attempt le t)))]
          else [])
       @ [RollbackRequest (formattedName t) (transactionId (begun srv attempt le t))
            (requestTag t)]"
proof -
  obtain rs where rs: "list_all is_read rs"
    "trace (tried srv f attempt le t) =
       trace (begun srv attempt le t) @ rs
       @ (if commits (snd (f attempt))
          then [CommitRequest (transactionId (begun srv attempt le t)) (requestTag t)
                  (ops (run_calls (fst (f attempt)) (begun srv attempt le t)))]
          else [])"
    using tried_trace by blast
  show ?thesis
    using rs
    by (intro exI[of _ rs]) (simp add: rolled_back_def rollback_def tried_def)
qed

lemma rolled_back_fields [simp]:
  "requestTag (rolled_back srv f attempt le t) = requestTag t"
  "formattedName (rolled_back srv f attempt le t) = formattedName t"
  "transactionId (rolled_back srv f attempt le t) = transactionId (begun srv attempt le t)"
  by (simp_all add: rolled_back_def rollback_def tried_def)

text \<open>The events of an attempt that reaches the rollback, and of one that commits.\<close>

lemma rolled_back_events:
  assumes "beginReply srv attempt = Inr tid"
  shows "\<exists>mid. trace (rolled_back srv f attempt le t) =
       trace t @ backoff_calls le
       @ [BeginTransactionRequest (formattedName t) (transactionId t) (requestTag t)]
       @ mid @ [RollbackRequest (formattedName t) (Some tid) (requestTag t)]
     \<and> count_list mid BackoffAndWait = 0
     \<and> rpcs mid = (if commits (snd (f attempt)) then [CommitRpc] else [])"
proof -
  obtain rs where rs: "list_all is_read rs"
    "trace (rolled_back srv f attempt le t) =
       trace (begun srv attempt le t) @ rs
       @ (if commits (snd (f attempt))
          then [CommitRequest (transactionId (begun srv attempt le t)) (requestTag t)
                  (ops (run_calls (fst (f attempt)) (begun srv attempt le t)))]
          else [])
       @ [RollbackRequest (formattedName t) (transactionId (begun srv attempt le t))
            (requestTag t)]"
    using rolled_back_trace by blast
  let ?mid = "rs @ (if commits (snd (f attempt))
          then [CommitRequest (transactionId (begun srv attempt le t)) (requestTag t)
                  (ops (run_calls (fst (f attempt)) (begun srv attempt le t)))]
          else [])"
  show ?thesis
    using rs(2) reads_counts[OF rs(1)] assms
    by (intro exI[of _ ?mid]) (simp add: begun_trace begun_transactionId)
qed

lemma tried_events:
  "\<exists>mid. trace (tried srv f attempt le t) =
       trace t @ backoff_calls le
       @ [BeginTransactionRequest (formattedName t) (transactionId t) (requestTag t)]
       @ mid
     \<and> count_list mid BackoffAndWait = 0
     \<and> rpcs mid = (if commits (snd (f attempt)) then [CommitRpc] else [])"
proof -
  obtain rs where rs: "list_all is_read rs"
    "trace (tried srv f attempt le t) =
       trace (begun srv attempt le t) @ rs
       @ (if commits (snd (f attempt))
          then [CommitRequest (transactionId (begun srv attempt le t)) (requestTag t)
                  (ops (run_calls (fst (f attempt)) (begun srv attempt le t)))]
          else [])"
    using tried_trace by blast
  let ?mid = "rs @ (if commits (snd (f attempt))
          then [CommitRequest (transactionId (begun srv attempt le t)) (requestTag t)
                  (ops (run_calls (fst (f attempt)) (begun srv attempt le t)))]
          else [])"
  show ?thesis
    using rs(2) reads_counts[OF rs(1)]
    by (intro exI[of _ ?mid]) (simp add: begun_trace)
qed

subsection \<open>The steps of the loop\<close>

lemma loop_exhausted:
  "\<not> int attempt < maxAttempts \<Longrightarrow>
     runTransaction_loop srv f maxAttempts attempt le t = (Rejected le, t)"
  by (subst runTransaction_loop.simps) simp

lemma loop_begin_failed:
  "int attempt < maxAttempts \<Longrightarrow> beginReply srv attempt = Inl e \<Longrightarrow>
     runTransaction_loop srv f maxAttempts attempt le t
       = (Rejected (Some e), begun srv attempt le t)"
  by (subst runTransaction_loop.simps) (simp add: begun_def begin_tx_def Let_def)

lemma loop_caught:
  assumes "int attempt < maxAttempts" and "beginReply srv attempt = Inr tid"
    and "caught (commitReply srv attempt) (snd (f attempt)) = Some e"
  shows "runTransaction_loop srv f maxAttempts attempt le t =
     (case rollbackReply srv attempt of
        Some re \<Rightarrow> (Rejected (Some re), rolled_back srv f attempt le t)
      | None \<Rightarrow>
         if isRetryableTransactionError e
         then runTransaction_loop srv f maxAttempts (Suc attempt) (Some e)
                (rolled_back srv f attempt le t)
         else (Rejected (Some e), rolled_back srv f attempt le t))"
proof -
  have b: "begin_tx (beginReply srv attempt) (maybeBackoff le (reset t))
             = (None, begun srv attempt le t)"
    using assms(2) by (simp add: begun_def begin_tx_def Let_def)
  have tb: "try_block (commitReply srv attempt) (f attempt) (begun srv attempt le t)
             = (Inl e, tried srv f attempt le t)"
    using try_block_caught[OF assms(3), of "begun srv attempt le t"]
    by (simp add: tried_def prod_eq_iff)
  have rb: "rollback (rollbackReply srv attempt) (tried srv f attempt le t)
             = (rollbackReply srv attempt, rolled_back srv f attempt le t)"
    by (simp add: rolled_back_def rollback_def)
  show ?thesis
    by (subst runTransaction_loop.simps) (simp add: assms(1) b tb rb split: option.splits)
qed

lemma loop_committed:
  assumes "int attempt < maxAttempts" and "beginReply srv attempt = Inr tid"
    and "snd (f attempt) = Resolves v" and "commitReply srv attempt = None"
  shows "runTransaction_loop srv f maxAttempts attempt le t
           = (Resolved v, tried srv f attempt le t)"
proof -
  have b: "begin_tx (beginReply srv attempt) (maybeBackoff le (reset t))
             = (None, begun srv attempt le t)"
    using assms(2) by (simp add: begun_def begin_tx_def Let_def)
  have tb: "try_block (commitReply srv attempt) (f attempt) (begun srv attempt le t)
             = (Inr v, tried srv f attempt le t)"
    using try_block_committed[OF assms(3,4), of "begun srv attempt le t"]
    by (simp add: tried_def prod_eq_iff)
  show ?thesis
    by (subst runTransaction_loop.simps) (simp add: assms(1) b tb)
qed

lemma caught_None:
  "caught cr cb = None \<Longrightarrow> \<exists>v. cb = Resolves v \<and> cr = None"
  by (auto simp: caught_def split: callback.splits)

lemma work_error_caught:
  "work_error cb = Some e \<Longrightarrow> caught cr cb = Some e \<and> \<not> commits cb"
  by (cases cb) (simp_all add: caught_def)

lemma retryable_iff:
  "isRetryableTransactionError e \<longleftrightarrow>
     code e \<in> {Some ABORTED, Some CANCELLED, Some UNKNOWN, Some DEADLINE_EXCEEDED,
               Some INTERNAL, Some UNAVAILABLE, Some UNAUTHENTICATED, Some RESOURCE_EXHAUSTED}"
proof (cases e)
  case (Error m c)
  show ?thesis
  proof (cases c)
    case None
    with Error show ?thesis by simp
  next
    case (Some s)
    with Error show ?thesis by (cases s) simp_all
  qed
qed

text \<open>Whatever happens, the loop only adds to the trace.\<close>

lemma loop_trace:
  "\<exists>evs. trace (snd (runTransaction_loop srv f m a le t)) = trace t @ evs"
proof (induction "nat (m - int a)" arbitrary: a le t)
  case 0
  then have "\<not> int a < m" by simp
  then show ?case by (simp add: loop_exhausted)
next
  case (Suc k)
  then have lt: "int a < m" and k: "k = nat (m - int (Suc a))" by simp_all
  show ?case
  proof (cases "beginReply srv a")
    case (Inl e)
    then show ?thesis
      using lt by (simp add: loop_begin_failed begun_trace)
  next
    case (Inr tid)
    show ?thesis
    proof (cases "caught (commitReply srv a) (snd (f a))")
      case None
      then obtain v where v: "snd (f a) = Resolves v" "commitReply srv a = None"
        using caught_None by blast
      have step: "runTransaction_loop srv f m a le t = (Resolved v, tried srv f a le t)"
        using lt Inr v by (simp add: loop_committed)
      show ?thesis
        using tried_events[of srv f a le t] by (auto simp add: step v)
    next
      case (Some e)
      have step: "runTransaction_loop srv f m a le t =
         (case rollbackReply srv a of
            Some re \<Rightarrow> (Rejected (Some re), rolled_back srv f a le t)
          | None \<Rightarrow>
             if isRetryableTransactionError e
             then runTransaction_loop srv f m (Suc a) (Some e) (rolled_back srv f a le t)
             else (Rejected (Some e), rolled_back srv f a le t))"
        using lt Inr Some by (simp add: loop_caught)
      obtain evs where evs: "trace (rolled_back srv f a le t) = trace t @ evs"
        using rolled_back_events[OF Inr, of f le t] by auto
      show ?thesis
      proof (cases "rollbackReply srv a = None \<and> isRetryableTransactionError e")
        case True
        obtain evs' where evs':
          "trace (snd (runTransaction_loop srv f m (Suc a) (Some e) (rolled_back srv f a le t)))
             = trace (rolled_back srv f a le t) @ evs'"
          using Suc.hyps(1)[OF k] by blast
        show ?thesis
          using True evs' evs by (intro exI[of _ "evs @ evs'"]) (simp add: step)
      next
        case False
        then show ?thesis
          using evs by (intro exI[of _ evs]) (auto simp add: step split: option.splits)
      qed
    qed
  qed
qed

lemma runTransaction_extends_trace:
  "\<exists>evs. trace (snd (runTransaction srv f m t)) = trace t @ evs"
  unfolding runTransaction_def using loop_trace by blast

text \<open>An attempt that starts adds the calls of the backoff and then the begin request.\<close>

lemma loop_first_events:
  assumes lt: "int a < m"
  shows "\<exists>rest. trace (snd (runTransaction_loop srv f m a le t)) =
           trace t @ backoff_calls le
           @ [BeginTransactionRequest (formattedName t) (transactionId t) (requestTag t)]
           @ rest"
proof (cases "beginReply srv a")
  case (Inl e)
  then show ?thesis
    using lt by (simp add: loop_begin_failed begun_trace)
next
  case (Inr tid)
  show ?thesis
  proof (cases "caught (commitReply srv a) (snd (f a))")
    case None
    then obtain v where v: "snd (f a) = Resolves v" "commitReply srv a = None"
      using caught_None by blast
    have step: "runTransaction_loop srv f m a le t = (Resolved v, tried srv f a le t)"
      using lt Inr v by (simp add: loop_committed)
    show ?thesis
      using tried_events[of srv f a le t] by (auto simp add: step)
  next
    case (Some e)
    have step: "runTransaction_loop srv f m a le t =
       (case rollbackReply srv a of
          Some re \<Rightarrow> (Rejected (Some re), rolled_back srv f a le t)
        | None \<Rightarrow>
           if isRetryableTransactionError e
           then runTransaction_loop srv f m (Suc a) (Some e) (rolled_back srv f a le t)
           else (Rejected (Some e), rolled_back srv f a le t))"
      using lt Inr Some by (simp add: loop_caught)
    obtain mid where mid: "trace (rolled_back srv f a le t) =
         trace t @ backoff_calls le
         @ [BeginTransactionRequest (formattedName t) (transactionId t) (requestTag t)]
         @ mid @ [RollbackRequest (formattedName t) (Some tid) (requestTag t)]"
      using rolled_back_events[OF Inr, of f le t] by auto
    obtain evs' where evs':
      "trace (snd (runTransaction_loop srv f m (Suc a) (Some e) (rolled_back srv f a le t)))
         = trace (rolled_back srv f a le t) @ evs'"
      using loop_trace by blast
    show ?thesis
      using mid evs' by (auto simp add: step split: option.splits)
  qed
qed

text \<open>
  An attempt whose \<^verbatim>\<open>try\<close> block ends in the \<^verbatim>\<open>catch\<close>: it has sent one
  \<^verbatim>\<open>beginTransaction\<close>, a \<^verbatim>\<open>commit\<close> when the work function had succeeded, and
  one \<^verbatim>\<open>rollback\<close>; what follows depends on the reply to the rollback first, and on the
  error only when the rollback has succeeded.
\<close>

lemma caught_attempt:
  assumes lt: "int a < m" and b: "beginReply srv a = Inr tid"
    and c: "caught (commitReply srv a) (snd (f a)) = Some e"
  shows "\<exists>t'. rpcs (emitted t t')
               = BeginRpc # (if commits (snd (f a)) then [CommitRpc] else []) @ [RollbackRpc]
            \<and> (\<exists>evs. trace t' = trace t @ evs)
            \<and> runTransaction_loop srv f m a le t
               = (case rollbackReply srv a of
                    None \<Rightarrow>
                      if isRetryableTransactionError e
                      then runTransaction_loop srv f m (Suc a) (Some e) t'
                      else (Rejected (Some e), t')
                  | Some re \<Rightarrow> (Rejected (Some re), t'))"
proof -
  obtain mid where mid: "trace (rolled_back srv f a le t) =
       trace t @ backoff_calls le
       @ [BeginTransactionRequest (formattedName t) (transactionId t) (requestTag t)]
       @ mid @ [RollbackRequest (formattedName t) (Some tid) (requestTag t)]"
     "rpcs mid = (if commits (snd (f a)) then [CommitRpc] else [])"
    using rolled_back_events[OF b, of f le t] by auto
  have step: "runTransaction_loop srv f m a le t =
       (case rollbackReply srv a of
          None \<Rightarrow>
            if isRetryableTransactionError e
            then runTransaction_loop srv f m (Suc a) (Some e) (rolled_back srv f a le t)
            else (Rejected (Some e), rolled_back srv f a le t)
        | Some re \<Rightarrow> (Rejected (Some re), rolled_back srv f a le t))"
    using lt b c by (simp add: loop_caught split: option.splits)
  have "rpcs (emitted t (rolled_back srv f a le t))
          = BeginRpc # (if commits (snd (f a)) then [CommitRpc] else []) @ [RollbackRpc]"
    using mid by (simp add: emitted_append[OF mid(1)])
  then show ?thesis
    using step mid(1) by blast
qed

lemma failed_attempt:
  assumes lt: "int a < m" and b: "beginReply srv a = Inr tid"
    and c: "caught (commitReply srv a) (snd (f a)) = Some e"
    and r: "rollbackReply srv a = None"
  shows "\<exists>t'. rpcs (emitted t t')
               = BeginRpc # (if commits (snd (f a)) then [CommitRpc] else []) @ [RollbackRpc]
            \<and> (\<exists>evs. trace t' = trace t @ evs)
            \<and> runTransaction_loop srv f m a le t
               = (if isRetryableTransactionError e
                  then runTransaction_loop srv f m (Suc a) (Some e) t'
                  else (Rejected (Some e), t'))"
  using caught_attempt[where f=f and a=a and m=m and srv=srv and le=le and t=t, OF lt b c]
  by (simp add: r)

subsection \<open>Reads after writes\<close>

text \<open>
  C1, as the spec words it, does not hold: the error of a read after a write does not carry
  the message "transactions require all reads to be executed before all writes". After one
  delete, \<^verbatim>\<open>get\<close> throws an error whose message is the constant of lines 54 and 55,
  which begins with "Firestore " and ends with a full stop.
\<close>

theorem read_after_write_message_counterexample:
  "fst (get (JDocumentReference ''col/doc'')
         (record_write (WDelete ''col/doc'') (new_transaction ''db'' ''tag'')))
     = Throws (Error ''Firestore transactions require all reads to be executed before all writes.''
                 None)
   \<and> ''Firestore transactions require all reads to be executed before all writes.''
       \<noteq> ''transactions require all reads to be executed before all writes''"
  by (simp add: get_def isEmpty_def record_write_def new_transaction_def
        READ_AFTER_WRITE_ERROR_MSG_def)

text \<open>
  C1, amended. After any sequence of calls on the transaction that contains a write, the write
  set is not empty; and whenever the write set is not empty, \<^verbatim>\<open>get\<close> and
  \<^verbatim>\<open>getAll\<close>, whatever their arguments, throw synchronously (they do not return a
  promise) the error with the fixed message "Firestore transactions require all reads to be
  executed before all writes." and leave the transaction as it was: nothing is added to the
  trace, so no read is issued.
\<close>

theorem read_after_write_rejected:
  "(\<not> isEmpty t \<longrightarrow>
      get refOrQuery t
        = (Throws (Error ''Firestore transactions require all reads to be executed before all writes.''
                     None), t)
    \<and> getAll args t
        = (Throws (Error ''Firestore transactions require all reads to be executed before all writes.''
                     None), t))
   \<and> \<not> isEmpty (run_calls (cs @ CallWrite w # cs') t)"
  by (simp add: get_def getAll_def READ_AFTER_WRITE_ERROR_MSG_def write_recorded)

theorem read_after_write_rejected_witness:
  "get (JQuery ''col'')
     (run_calls [CallGet (JDocumentReference ''col/doc''), CallWrite (WDelete ''col/doc'')]
        (new_transaction ''db'' ''tag''))
     = (Throws (Error ''Firestore transactions require all reads to be executed before all writes.''
                  None),
        \<lparr> formattedName = ''db'', requestTag = ''tag'', transactionId = None,
          ops = [WDelete ''col/doc''],
          trace = [GetAllRequest [JDocumentReference ''col/doc''] None ''tag'' None] \<rparr>)"
proof -
  let ?t = "run_calls [CallGet (JDocumentReference ''col/doc''), CallWrite (WDelete ''col/doc'')]
              (new_transaction ''db'' ''tag'')"
  have t: "?t = \<lparr> formattedName = ''db'', requestTag = ''tag'', transactionId = None,
          ops = [WDelete ''col/doc''],
          trace = [GetAllRequest [JDocumentReference ''col/doc''] None ''tag'' None] \<rparr>"
    by (simp add: get_def isEmpty_def record_write_def new_transaction_def emit_def)
  have ne: "\<not> isEmpty ?t"
    unfolding t by (simp add: isEmpty_def)
  have "get (JQuery ''col'') ?t
     = (Throws (Error ''Firestore transactions require all reads to be executed before all writes.''
                  None), ?t)"
    using read_after_write_rejected[of ?t "JQuery ''col''" "[]" "[]" "WDelete ''col/doc''" "[]"] ne
    by blast
  then show ?thesis
    unfolding t .
qed

subsection \<open>The arguments of \<^verbatim>\<open>getAll\<close>\<close>

text \<open>
  C9. For all references \<open>a\<close> and \<open>b\<close>, \<^verbatim>\<open>parseGetAllArguments\<close> on the two references
  followed by the plain object \<^verbatim>\<open>{fieldMask: ["x"]}\<close> returns the two references in
  their order and the field mask made of the one path \<^verbatim>\<open>FieldPath("x")\<close>; on the two
  references alone it returns them with the field mask \<^verbatim>\<open>null\<close>; and on any arguments
  whose first is an array it throws an error without a status code, that of lines 355 to 358.
\<close>

theorem parseGetAllArguments_examples:
  "parseGetAllArguments
     [JDocumentReference a, JDocumentReference b,
      JPlainObject [(''fieldMask'', JArray [JString ''x''])]]
     = Inr \<lparr> documents = [JDocumentReference a, JDocumentReference b],
             fieldMask = Some [FieldPath [''x'']] \<rparr>
   \<and> parseGetAllArguments [JDocumentReference a, JDocumentReference b]
     = Inr \<lparr> documents = [JDocumentReference a, JDocumentReference b], fieldMask = None \<rparr>
   \<and> parseGetAllArguments (JArray xs # rest)
     = Inl (Error (''getAll() no longer accepts an array as its first argument. ''
                   @ ''Please unpack your array and call getAll() with individual arguments.'')
              None)"
  by (simp add: parseGetAllArguments_def at_index_def validateDocumentReference_def
        validateReadOptions_def validateOptional_def validateFieldPath_def)

text \<open>
  C6. A call of \<^verbatim>\<open>getAll\<close> without any document reference ought to throw before a
  read is issued, and the comment of lines 160 to 162 requires a first argument that is a
  \<^verbatim>\<open>DocumentReference\<close>. The code does not do so when the read options are the only
  argument: on a fresh transaction, \<^verbatim>\<open>getAll({fieldMask: ["x"]})\<close> returns a promise,
  and the read is issued for the empty list of documents. One argument is enough for
  \<^verbatim>\<open>validateMinNumberOfArguments\<close>, and \<^verbatim>\<open>parseGetAllArguments\<close> takes the options
  off and has no reference left to validate.
\<close>

theorem getAll_only_read_options:
  "getAll [JPlainObject [(''fieldMask'', JArray [JString ''x''])]] (new_transaction ''db'' ''tag'')
     = (ReturnsPromise,
        \<lparr> formattedName = ''db'', requestTag = ''tag'', transactionId = None, ops = [],
          trace = [GetAllRequest [] (Some [FieldPath [''x'']]) ''tag'' None] \<rparr>)"
  by (simp add: getAll_def isEmpty_def new_transaction_def validateMinNumberOfArguments_def
        parseGetAllArguments_def at_index_def validateReadOptions_def validateOptional_def
        validateFieldPath_def emit_def)

text \<open>With no argument at all, \<^verbatim>\<open>getAll\<close> does throw, and issues nothing.\<close>

lemma getAll_no_argument:
  "\<exists>m. getAll [] (new_transaction db tag) = (Throws (Error m None), new_transaction db tag)"
  by (simp add: getAll_def isEmpty_def new_transaction_def validateMinNumberOfArguments_def)

subsection \<open>The attempts of \<^verbatim>\<open>runTransaction\<close>\<close>

text \<open>
  C10. When \<^verbatim>\<open>maxAttempts\<close> is zero or negative, \<^verbatim>\<open>runTransaction\<close> rejects with
  \<^verbatim>\<open>undefined\<close>, the value \<^verbatim>\<open>lastError\<close> was initialised with, and leaves the
  transaction as it was, whatever the server and the work function are: nothing is reset,
  no RPC is sent, the backoff is not called and the work function is not invoked.
\<close>

theorem no_attempt_without_budget:
  "maxAttempts \<le> 0 \<Longrightarrow> runTransaction srv updateFunction maxAttempts t = (Rejected None, t)"
  unfolding runTransaction_def by (subst runTransaction_loop.simps) simp

theorem no_attempt_without_budget_witness:
  "runTransaction reliable_server always_unavailable (- 1) (new_transaction ''db'' ''tag'')
     = (Rejected None, new_transaction ''db'' ''tag'')
   \<and> runTransaction reliable_server always_unavailable 0 (new_transaction ''db'' ''tag'')
     = (Rejected None, new_transaction ''db'' ''tag'')"
  using no_attempt_without_budget[of "- 1" reliable_server always_unavailable
          "new_transaction ''db'' ''tag''"]
        no_attempt_without_budget[of 0 reliable_server always_unavailable
          "new_transaction ''db'' ''tag''"]
  by simp

text \<open>
  C2, as the spec words it, does not hold for every server. The work function fails with an
  \<^verbatim>\<open>UNAVAILABLE\<close> error in each of the attempts 0, 1 and 2 and
  \<^verbatim>\<open>maxAttempts\<close> is 3, but the server refuses the rollback: \<^verbatim>\<open>runTransaction\<close>
  sends one \<^verbatim>\<open>beginTransaction\<close> and one \<^verbatim>\<open>rollback\<close> only, and rejects with the
  error of the rollback, whose code is not \<^verbatim>\<open>UNAVAILABLE\<close>.
\<close>

theorem unavailable_rollback_failure_counterexample:
  "work_error (snd (always_unavailable 0)) = Some unavailable_error
   \<and> work_error (snd (always_unavailable 1)) = Some unavailable_error
   \<and> work_error (snd (always_unavailable 2)) = Some unavailable_error
   \<and> code unavailable_error = Some UNAVAILABLE
   \<and> fst (runTransaction failing_rollback_server always_unavailable 3
             (new_transaction ''db'' ''tag''))
       = Rejected (Some rollback_error)
   \<and> rpcs (trace (snd (runTransaction failing_rollback_server always_unavailable 3
                          (new_transaction ''db'' ''tag''))))
       = [BeginRpc, RollbackRpc]
   \<and> code rollback_error = Some INTERNAL"
  unfolding runTransaction_def
  by (subst runTransaction_loop.simps, subst runTransaction_loop.simps)
     (simp add: failing_rollback_server_def always_unavailable_def new_transaction_def reset_def
        maybeBackoff_def begin_tx_def try_block_def rollback_def get_def isEmpty_def emit_def
        record_write_def unavailable_error_def rollback_error_def)

text \<open>
  C2, amended: provided the rollback of each attempt succeeds. Let the work function fail in
  each of the attempts 0, 1 and 2 with an error whose code is
  \<^verbatim>\<open>UNAVAILABLE\<close> (thrown, or as the rejection of its promise), and let the server accept
  the \<^verbatim>\<open>beginTransaction\<close> and the \<^verbatim>\<open>rollback\<close> of these attempts. Then
  \<^verbatim>\<open>runTransaction\<close> with \<^verbatim>\<open>maxAttempts = 3\<close> rejects with the error of the last
  attempt, and the RPCs it has sent are, in order, three times a \<^verbatim>\<open>beginTransaction\<close>
  followed by a \<^verbatim>\<open>rollback\<close>: it never commits.
\<close>

theorem unavailable_exhausts_three_attempts:
  assumes work: "\<forall>i<3. \<exists>e. work_error (snd (updateFunction i)) = Some e
                            \<and> code e = Some UNAVAILABLE"
    and begins: "\<forall>i<3. \<exists>tid. beginReply srv i = Inr tid"
    and rollbacks: "\<forall>i<3. rollbackReply srv i = None"
  shows "(\<exists>e. work_error (snd (updateFunction 2)) = Some e \<and> code e = Some UNAVAILABLE
            \<and> fst (runTransaction srv updateFunction 3 t) = Rejected (Some e))
       \<and> rpcs (emitted t (snd (runTransaction srv updateFunction 3 t)))
           = [BeginRpc, RollbackRpc, BeginRpc, RollbackRpc, BeginRpc, RollbackRpc]"
proof -
  let ?f = updateFunction
  have attempt: "\<exists>e t'. work_error (snd (?f i)) = Some e \<and> code e = Some UNAVAILABLE
        \<and> rpcs (emitted u t') = [BeginRpc, RollbackRpc] \<and> (\<exists>evs. trace t' = trace u @ evs)
        \<and> runTransaction_loop srv ?f 3 i le u = runTransaction_loop srv ?f 3 (Suc i) (Some e) t'"
    if i: "i < 3" for i le u
  proof -
    obtain e where e: "work_error (snd (?f i)) = Some e" "code e = Some UNAVAILABLE"
      using work i by blast
    obtain tid where tid: "beginReply srv i = Inr tid"
      using begins i by blast
    have c: "caught (commitReply srv i) (snd (?f i)) = Some e" and nc: "\<not> commits (snd (?f i))"
      using work_error_caught[OF e(1)] by simp_all
    have re: "isRetryableTransactionError e"
      using e(2) by (simp add: retryable_iff)
    have lt: "int i < 3" using i by simp
    have r: "rollbackReply srv i = None" using rollbacks i by simp
    show ?thesis
      using failed_attempt[where f="?f" and a=i and m=3 and srv=srv and le=le and t=u,
              OF lt tid c r] e re nc
      by auto
  qed
  obtain e0 t1 where 1: "rpcs (emitted t t1) = [BeginRpc, RollbackRpc]"
      "\<exists>evs. trace t1 = trace t @ evs"
      "runTransaction_loop srv ?f 3 0 None t = runTransaction_loop srv ?f 3 (Suc 0) (Some e0) t1"
    using attempt[where i=0 and le=None and u=t] by auto
  obtain e1 t2 where 2: "rpcs (emitted t1 t2) = [BeginRpc, RollbackRpc]"
      "\<exists>evs. trace t2 = trace t1 @ evs"
      "runTransaction_loop srv ?f 3 (Suc 0) (Some e0) t1
         = runTransaction_loop srv ?f 3 (Suc (Suc 0)) (Some e1) t2"
    using attempt[where i="Suc 0" and le="Some e0" and u=t1] by auto
  obtain e2 t3 where 3: "work_error (snd (?f 2)) = Some e2" "code e2 = Some UNAVAILABLE"
      "rpcs (emitted t2 t3) = [BeginRpc, RollbackRpc]"
      "\<exists>evs. trace t3 = trace t2 @ evs"
      "runTransaction_loop srv ?f 3 (Suc (Suc 0)) (Some e1) t2
         = runTransaction_loop srv ?f 3 (Suc (Suc (Suc 0))) (Some e2) t3"
    using attempt[where i="Suc (Suc 0)" and le="Some e1" and u=t2]
    by (auto simp: numeral_2_eq_2)
  have final: "runTransaction srv ?f 3 t = (Rejected (Some e2), t3)"
    unfolding runTransaction_def using 1(3) 2(3) 3(5) by (simp add: loop_exhausted)
  obtain evs1 evs2 evs3 where evs: "trace t1 = trace t @ evs1" "trace t2 = trace t1 @ evs2"
      "trace t3 = trace t2 @ evs3"
    using 1(2) 2(2) 3(4) by blast
  have "emitted t t3 = emitted t t1 @ emitted t1 t2 @ emitted t2 t3"
    using evs by (simp add: emitted_def)
  then have "rpcs (emitted t t3)
      = [BeginRpc, RollbackRpc, BeginRpc, RollbackRpc, BeginRpc, RollbackRpc]"
    using 1(1) 2(1) 3(3) by simp
  then show ?thesis
    using final 3(1,2) by simp
qed

theorem unavailable_exhausts_three_attempts_witness:
  "fst (runTransaction reliable_server always_unavailable 3 (new_transaction ''db'' ''tag''))
     = Rejected (Some unavailable_error)
   \<and> rpcs (emitted (new_transaction ''db'' ''tag'')
             (snd (runTransaction reliable_server always_unavailable 3
                     (new_transaction ''db'' ''tag''))))
     = [BeginRpc, RollbackRpc, BeginRpc, RollbackRpc, BeginRpc, RollbackRpc]"
proof -
  have work: "\<forall>i<3. \<exists>e. work_error (snd (always_unavailable i)) = Some e
                          \<and> code e = Some UNAVAILABLE"
    by (simp add: always_unavailable_def unavailable_error_def)
  have begins: "\<forall>i<3. \<exists>tid. beginReply reliable_server i = Inr tid"
    by (simp add: reliable_server_def)
  have rollbacks: "\<forall>i<3. rollbackReply reliable_server i = None"
    by (simp add: reliable_server_def)
  have last: "work_error (snd (always_unavailable 2)) = Some unavailable_error"
    by (simp add: always_unavailable_def)
  show ?thesis
    using unavailable_exhausts_three_attempts[OF work begins rollbacks,
            of "new_transaction ''db'' ''tag''"] last
    by auto
qed

text \<open>
  C3, as the spec words it, does not hold for every server. The work function rejects with an
  \<^verbatim>\<open>ABORTED\<close> error, which is retryable, and four attempts remain, but the server
  refuses the rollback: the error is not retried, and \<^verbatim>\<open>runTransaction\<close> rejects after
  one \<^verbatim>\<open>beginTransaction\<close> and one \<^verbatim>\<open>rollback\<close> with the error of the rollback,
  not with that of the work function.
\<close>

theorem retryable_error_not_retried_counterexample:
  "work_error (snd (always_aborted 0)) = Some aborted_error
   \<and> isRetryableTransactionError aborted_error
   \<and> fst (runTransaction failing_rollback_server always_aborted 5 (new_transaction ''db'' ''tag''))
       = Rejected (Some rollback_error)
   \<and> rpcs (trace (snd (runTransaction failing_rollback_server always_aborted 5
                          (new_transaction ''db'' ''tag''))))
       = [BeginRpc, RollbackRpc]
   \<and> rollback_error \<noteq> aborted_error"
  unfolding runTransaction_def
  by (subst runTransaction_loop.simps, subst runTransaction_loop.simps)
     (simp add: failing_rollback_server_def always_aborted_def new_transaction_def reset_def
        maybeBackoff_def begin_tx_def try_block_def rollback_def emit_def
        aborted_error_def rollback_error_def)

text \<open>
  C3, amended: provided the rollback of the attempt succeeds. Take an attempt within the budget
  whose \<^verbatim>\<open>beginTransaction\<close> has succeeded, in which
  an error \<open>e\<close> reaches the \<^verbatim>\<open>catch\<close> (thrown by the work function or by the commit), and
  whose \<^verbatim>\<open>rollback\<close> succeeds. The attempt has then sent one \<^verbatim>\<open>beginTransaction\<close> and
  one \<^verbatim>\<open>rollback\<close> (with the failed \<^verbatim>\<open>commit\<close> between them when the error is the
  commit's), and the loop goes on to the next attempt, with \<open>e\<close> as \<^verbatim>\<open>lastError\<close>, exactly
  when the code of \<open>e\<close> is one of \<^verbatim>\<open>ABORTED\<close>, \<^verbatim>\<open>CANCELLED\<close>, \<^verbatim>\<open>UNKNOWN\<close>,
  \<^verbatim>\<open>DEADLINE_EXCEEDED\<close>, \<^verbatim>\<open>INTERNAL\<close>, \<^verbatim>\<open>UNAVAILABLE\<close>, \<^verbatim>\<open>UNAUTHENTICATED\<close>,
  \<^verbatim>\<open>RESOURCE_EXHAUSTED\<close>; for any other code, and for an error without a code, it rejects
  with \<open>e\<close> at once, whatever \<^verbatim>\<open>maxAttempts\<close> is. \<^verbatim>\<open>runTransaction\<close> is the loop
  entered at attempt 0 with no last error.
\<close>

theorem retry_decided_by_error_code:
  assumes "int attempt < maxAttempts"
    and "beginReply srv attempt = Inr tid"
    and "caught (commitReply srv attempt) (snd (updateFunction attempt)) = Some e"
    and "rollbackReply srv attempt = None"
  shows "\<exists>evs t'. trace t' = trace t @ evs
            \<and> rpcs evs
               = BeginRpc # (if commits (snd (updateFunction attempt)) then [CommitRpc] else [])
                 @ [RollbackRpc]
            \<and> runTransaction_loop srv updateFunction maxAttempts attempt lastError t
               = (if code e \<in> {Some ABORTED, Some CANCELLED, Some UNKNOWN,
                                Some DEADLINE_EXCEEDED, Some INTERNAL, Some UNAVAILABLE,
                                Some UNAUTHENTICATED, Some RESOURCE_EXHAUSTED}
                  then runTransaction_loop srv updateFunction maxAttempts (Suc attempt)
                         (Some e) t'
                  else (Rejected (Some e), t'))"
proof -
  obtain t' evs where t': "trace t' = trace t @ evs"
    "rpcs (emitted t t')
       = BeginRpc # (if commits (snd (updateFunction attempt)) then [CommitRpc] else [])
         @ [RollbackRpc]"
    "runTransaction_loop srv updateFunction maxAttempts attempt lastError t
       = (if isRetryableTransactionError e
          then runTransaction_loop srv updateFunction maxAttempts (Suc attempt) (Some e) t'
          else (Rejected (Some e), t'))"
    using failed_attempt[where f=updateFunction and a=attempt and m=maxAttempts and srv=srv
            and le=lastError and t=t, OF assms]
    by blast
  show ?thesis
    using t' unfolding retryable_iff emitted_append[OF t'(1)] by blast
qed

theorem retry_decided_by_error_code_witness:
  "runTransaction reliable_server always_denied 5 (new_transaction ''db'' ''tag'')
     = (Rejected (Some denied_error),
        \<lparr> formattedName = ''db'', requestTag = ''tag'', transactionId = Some [0], ops = [],
          trace = [BackoffAndWait, BeginTransactionRequest ''db'' None ''tag'',
                   GetAllRequest [JDocumentReference ''col/doc''] None ''tag'' (Some [0]),
                   RollbackRequest ''db'' (Some [0]) ''tag''] \<rparr>)"
proof -
  let ?t = "new_transaction ''db'' ''tag''"
  have h: "int 0 < 5" "beginReply reliable_server 0 = Inr [0]"
    "caught (commitReply reliable_server 0) (snd (always_denied 0)) = Some denied_error"
    "rollbackReply reliable_server 0 = None"
    by (simp_all add: reliable_server_def always_denied_def caught_def)
  obtain t' where t': "runTransaction_loop reliable_server always_denied 5 0 None ?t
      = (Rejected (Some denied_error), t')"
    using retry_decided_by_error_code[where updateFunction=always_denied and attempt=0
            and maxAttempts=5 and srv=reliable_server and lastError=None and t="?t", OF h]
    by (auto simp: denied_error_def)
  have "snd (runTransaction_loop reliable_server always_denied 5 0 None ?t)
      = \<lparr> formattedName = ''db'', requestTag = ''tag'', transactionId = Some [0], ops = [],
          trace = [BackoffAndWait, BeginTransactionRequest ''db'' None ''tag'',
                   GetAllRequest [JDocumentReference ''col/doc''] None ''tag'' (Some [0]),
                   RollbackRequest ''db'' (Some [0]) ''tag''] \<rparr>"
    by (subst runTransaction_loop.simps)
       (simp add: reliable_server_def always_denied_def new_transaction_def reset_def
          maybeBackoff_def begin_tx_def try_block_def rollback_def get_def isEmpty_def emit_def
          denied_error_def)
  then show ?thesis
    using t' by (simp add: runTransaction_def)
qed

text \<open>
  C4, as the spec words it, does not hold: a failure of the rollback does replace the error
  that triggered it. The work function rejects with a \<^verbatim>\<open>PERMISSION_DENIED\<close> error, the
  server refuses the rollback, and \<^verbatim>\<open>runTransaction\<close> rejects with the error of the
  rollback: \<^verbatim>\<open>await this.rollback()\<close> (line 307) stands in the \<^verbatim>\<open>catch\<close> block
  without a handler of its own.
\<close>

theorem rollback_error_replaces_error_counterexample:
  "fst (runTransaction failing_rollback_server always_denied 3 (new_transaction ''db'' ''tag''))
     = Rejected (Some rollback_error)
   \<and> work_error (snd (always_denied 0)) = Some denied_error
   \<and> rollback_error \<noteq> denied_error"
  unfolding runTransaction_def
  by (subst runTransaction_loop.simps)
     (simp add: failing_rollback_server_def always_denied_def new_transaction_def reset_def
        maybeBackoff_def begin_tx_def try_block_def rollback_def get_def isEmpty_def emit_def
        denied_error_def rollback_error_def)

text \<open>
  C4, amended. In every attempt in which an error \<open>e\<close> reaches the \<^verbatim>\<open>catch\<close>, one rollback
  is sent. When the rollback succeeds, the outcome is decided by \<open>e\<close>: the loop goes on to the
  next attempt when \<open>e\<close> is retryable and rejects with \<open>e\<close> otherwise. When the rollback fails,
  \<^verbatim>\<open>runTransaction\<close> rejects at once with the error of the rollback, whatever \<open>e\<close> is,
  and makes no further attempt.
\<close>

theorem rollback_failure_rejects:
  assumes "int attempt < maxAttempts"
    and "beginReply srv attempt = Inr tid"
    and "caught (commitReply srv attempt) (snd (updateFunction attempt)) = Some e"
  shows "\<exists>evs t'. trace t' = trace t @ evs
            \<and> rpcs evs
               = BeginRpc # (if commits (snd (updateFunction attempt)) then [CommitRpc] else [])
                 @ [RollbackRpc]
            \<and> runTransaction_loop srv updateFunction maxAttempts attempt lastError t
               = (case rollbackReply srv attempt of
                    None \<Rightarrow>
                      if isRetryableTransactionError e
                      then runTransaction_loop srv updateFunction maxAttempts (Suc attempt)
                             (Some e) t'
                      else (Rejected (Some e), t')
                  | Some rollbackError \<Rightarrow> (Rejected (Some rollbackError), t'))"
proof -
  obtain t' evs where t': "trace t' = trace t @ evs"
    "rpcs (emitted t t')
       = BeginRpc # (if commits (snd (updateFunction attempt)) then [CommitRpc] else [])
         @ [RollbackRpc]"
    "runTransaction_loop srv updateFunction maxAttempts attempt lastError t
       = (case rollbackReply srv attempt of
            None \<Rightarrow>
              if isRetryableTransactionError e
              then runTransaction_loop srv updateFunction maxAttempts (Suc attempt) (Some e) t'
              else (Rejected (Some e), t')
          | Some rollbackError \<Rightarrow> (Rejected (Some rollbackError), t'))"
    using caught_attempt[where f=updateFunction and a=attempt and m=maxAttempts and srv=srv
            and le=lastError and t=t, OF assms]
    by blast
  show ?thesis
    using t' unfolding emitted_append[OF t'(1)] by blast
qed

theorem rollback_failure_rejects_witness:
  "fst (runTransaction_loop failing_rollback_server always_unavailable 3 0 None
          (new_transaction ''db'' ''tag''))
     = Rejected (Some rollback_error)
   \<and> fst (runTransaction_loop reliable_server always_denied 3 0 None
          (new_transaction ''db'' ''tag''))
     = Rejected (Some denied_error)"
proof -
  let ?t = "new_transaction ''db'' ''tag''"
  have h: "int 0 < 3" "beginReply failing_rollback_server 0 = Inr [0]"
    "caught (commitReply failing_rollback_server 0) (snd (always_unavailable 0))
       = Some unavailable_error"
    by (simp_all add: failing_rollback_server_def always_unavailable_def caught_def)
  have k: "int 0 < 3" "beginReply reliable_server 0 = Inr [0]"
    "caught (commitReply reliable_server 0) (snd (always_denied 0)) = Some denied_error"
    by (simp_all add: reliable_server_def always_denied_def caught_def)
  have r: "rollbackReply failing_rollback_server 0 = Some rollback_error"
    "rollbackReply reliable_server 0 = None"
    "\<not> isRetryableTransactionError denied_error"
    by (simp_all add: failing_rollback_server_def reliable_server_def denied_error_def)
  show ?thesis
    using rollback_failure_rejects[where updateFunction=always_unavailable and attempt=0
            and maxAttempts=3 and srv=failing_rollback_server and lastError=None and t="?t",
            OF h]
      rollback_failure_rejects[where updateFunction=always_denied and attempt=0
            and maxAttempts=3 and srv=reliable_server and lastError=None and t="?t", OF k]
    by (auto simp: r)
qed



text \<open>
  C7. Let an attempt that is not the last of the budget fail with a retryable error \<open>e\<close> and be
  rolled back. Between its \<^verbatim>\<open>rollback\<close> and the \<^verbatim>\<open>beginTransaction\<close> of the next
  attempt (which carries the identifier of the failed attempt as \<^verbatim>\<open>retryTransaction\<close>),
  the calls to the backoff are \<^verbatim>\<open>resetToMax\<close> followed by \<^verbatim>\<open>backoffAndWait\<close> when
  the code of \<open>e\<close> is \<^verbatim>\<open>RESOURCE_EXHAUSTED\<close>, and \<^verbatim>\<open>backoffAndWait\<close> alone for any
  other code: these are the calls of \<^verbatim>\<open>maybeBackoff\<close> on the last error.
\<close>

theorem resetToMax_after_resource_exhausted:
  assumes "int (Suc attempt) < maxAttempts"
    and "beginReply srv attempt = Inr tid"
    and "caught (commitReply srv attempt) (snd (updateFunction attempt)) = Some e"
    and "rollbackReply srv attempt = None"
    and "isRetryableTransactionError e"
  shows "trace (maybeBackoff (Some e) u)
           = trace u @ (if code e = Some RESOURCE_EXHAUSTED
                        then [BackoffResetToMax, BackoffAndWait] else [BackoffAndWait])
       \<and> (\<exists>pre rest.
             rpcs pre = BeginRpc # (if commits (snd (updateFunction attempt)) then [CommitRpc] else [])
           \<and> emitted t (snd (runTransaction_loop srv updateFunction maxAttempts attempt lastError t))
               = pre @ [RollbackRequest (formattedName t) (Some tid) (requestTag t)]
                 @ (if code e = Some RESOURCE_EXHAUSTED
                    then [BackoffResetToMax, BackoffAndWait] else [BackoffAndWait])
                 @ [BeginTransactionRequest (formattedName t) (Some tid) (requestTag t)]
                 @ rest)"
proof -
  have lt: "int attempt < maxAttempts" using assms(1) by simp
  have step: "runTransaction_loop srv updateFunction maxAttempts attempt lastError t
      = runTransaction_loop srv updateFunction maxAttempts (Suc attempt) (Some e)
          (rolled_back srv updateFunction attempt lastError t)"
    using lt assms(2-5) by (simp add: loop_caught)
  let ?rb = "rolled_back srv updateFunction attempt lastError t"
  let ?pre0 = "backoff_calls lastError
       @ [BeginTransactionRequest (formattedName t) (transactionId t) (requestTag t)]"
  obtain mid where mid: "trace ?rb =
       trace t @ ?pre0 @ mid @ [RollbackRequest (formattedName t) (Some tid) (requestTag t)]"
     "rpcs mid = (if commits (snd (updateFunction attempt)) then [CommitRpc] else [])"
    using rolled_back_events[OF assms(2), of updateFunction lastError t] by auto
  obtain rest where rest:
    "trace (snd (runTransaction_loop srv updateFunction maxAttempts (Suc attempt) (Some e) ?rb))
       = trace ?rb @ backoff_calls (Some e)
         @ [BeginTransactionRequest (formattedName ?rb) (transactionId ?rb) (requestTag ?rb)]
         @ rest"
    using loop_first_events[OF assms(1)] by blast
  have tid: "transactionId ?rb = Some tid"
    by (simp add: begun_transactionId[OF assms(2)])
  have bc: "backoff_calls (Some e)
      = (if code e = Some RESOURCE_EXHAUSTED
         then [BackoffResetToMax, BackoffAndWait] else [BackoffAndWait])"
    by (simp add: backoff_calls_def)
  have "emitted t (snd (runTransaction_loop srv updateFunction maxAttempts attempt lastError t))
      = (?pre0 @ mid) @ [RollbackRequest (formattedName t) (Some tid) (requestTag t)]
        @ backoff_calls (Some e)
        @ [BeginTransactionRequest (formattedName t) (Some tid) (requestTag t)] @ rest"
    unfolding step using rest mid(1) tid by (simp add: emitted_def)
  moreover have "rpcs (?pre0 @ mid)
      = BeginRpc # (if commits (snd (updateFunction attempt)) then [CommitRpc] else [])"
    using mid(2) by simp
  moreover have "trace (maybeBackoff (Some e) u) = trace u @ backoff_calls (Some e)"
    by (rule maybeBackoff_trace)
  ultimately show ?thesis
    unfolding bc by blast
qed

theorem resetToMax_after_resource_exhausted_witness:
  "emitted (new_transaction ''db'' ''tag'')
     (snd (runTransaction_loop reliable_server exhausted_then_done 2 0 None
             (new_transaction ''db'' ''tag'')))
     = [BackoffAndWait, BeginTransactionRequest ''db'' None ''tag'',
        RollbackRequest ''db'' (Some [0]) ''tag'',
        BackoffResetToMax, BackoffAndWait,
        BeginTransactionRequest ''db'' (Some [0]) ''tag'',
        CommitRequest (Some [1]) ''tag'' [WSet ''col/doc'' (JNumber 1)]]
   \<and> (\<exists>pre rest. emitted (new_transaction ''db'' ''tag'')
         (snd (runTransaction_loop reliable_server exhausted_then_done 2 0 None
             (new_transaction ''db'' ''tag'')))
       = pre @ [RollbackRequest ''db'' (Some [0]) ''tag'', BackoffResetToMax, BackoffAndWait,
                BeginTransactionRequest ''db'' (Some [0]) ''tag''] @ rest)"
proof -
  let ?t = "new_transaction ''db'' ''tag''"
  have h: "int (Suc 0) < 2" "beginReply reliable_server 0 = Inr [0]"
    "caught (commitReply reliable_server 0) (snd (exhausted_then_done 0)) = Some exhausted_error"
    "rollbackReply reliable_server 0 = None"
    "isRetryableTransactionError exhausted_error"
    by (simp_all add: reliable_server_def exhausted_then_done_def caught_def exhausted_error_def)
  have run: "trace (snd (runTransaction_loop reliable_server exhausted_then_done 2 0 None ?t))
     = [BackoffAndWait, BeginTransactionRequest ''db'' None ''tag'',
        RollbackRequest ''db'' (Some [0]) ''tag'',
        BackoffResetToMax, BackoffAndWait,
        BeginTransactionRequest ''db'' (Some [0]) ''tag'',
        CommitRequest (Some [1]) ''tag'' [WSet ''col/doc'' (JNumber 1)]]"
    apply (subst runTransaction_loop.simps)
    apply (simp add: reliable_server_def exhausted_then_done_def new_transaction_def reset_def
        maybeBackoff_def begin_tx_def try_block_def rollback_def commit_def record_write_def
        emit_def exhausted_error_def)
    apply (subst runTransaction_loop.simps)
    apply (simp add: reliable_server_def exhausted_then_done_def new_transaction_def reset_def
        maybeBackoff_def begin_tx_def try_block_def rollback_def commit_def record_write_def
        emit_def exhausted_error_def)
    done
  have e: "emitted ?t (snd (runTransaction_loop reliable_server exhausted_then_done 2 0 None ?t))
     = [BackoffAndWait, BeginTransactionRequest ''db'' None ''tag'',
        RollbackRequest ''db'' (Some [0]) ''tag'',
        BackoffResetToMax, BackoffAndWait,
        BeginTransactionRequest ''db'' (Some [0]) ''tag'',
        CommitRequest (Some [1]) ''tag'' [WSet ''col/doc'' (JNumber 1)]]"
    by (simp add: emitted_def run) (simp add: new_transaction_def)
  have "\<exists>pre rest. emitted ?t
         (snd (runTransaction_loop reliable_server exhausted_then_done 2 0 None ?t))
       = pre @ [RollbackRequest ''db'' (Some [0]) ''tag'', BackoffResetToMax, BackoffAndWait,
                BeginTransactionRequest ''db'' (Some [0]) ''tag''] @ rest"
    using resetToMax_after_resource_exhausted[where updateFunction=exhausted_then_done
            and attempt=0 and maxAttempts=2 and srv=reliable_server and lastError=None
            and t="?t" and u="?t", OF h]
    by (simp add: exhausted_error_def new_transaction_def) blast
  then show ?thesis
    using e by blast
qed

text \<open>
  C8, as the spec words it, does not hold for every server. The work function returns a value
  that is not a promise and the server refuses the rollback: \<^verbatim>\<open>runTransaction\<close>
  rejects with the error of the rollback, which carries the code \<^verbatim>\<open>INTERNAL\<close>, and not
  with the error of line 292.
\<close>

theorem plain_value_rollback_failure_counterexample:
  "snd (returns_plain 0) = ReturnsPlain 7
   \<and> fst (runTransaction failing_rollback_server returns_plain 3 (new_transaction ''db'' ''tag''))
       = Rejected (Some rollback_error)
   \<and> rollback_error = Error ''rollback failed'' (Some INTERNAL)
   \<and> rollback_error
       \<noteq> Error ''You must return a Promise in your transaction()-callback.'' None"
  unfolding runTransaction_def
  by (subst runTransaction_loop.simps, subst runTransaction_loop.simps)
     (simp add: failing_rollback_server_def returns_plain_def new_transaction_def reset_def
        maybeBackoff_def begin_tx_def try_block_def rollback_def emit_def record_write_def
        rollback_error_def)

text \<open>
  C8, amended: the rejection with the error of line 292 is for a rollback that succeeds; that
  no commit is sent holds for every reply to the rollback.
  Let \<^verbatim>\<open>maxAttempts\<close> be positive, the first \<^verbatim>\<open>beginTransaction\<close> succeed and the
  first invocation of the work function return a value that is not a promise. Then
  \<^verbatim>\<open>runTransaction\<close> sends no \<^verbatim>\<open>commit\<close>; and when the rollback of that attempt
  succeeds, it rejects with the error of line 292, which has no status code and therefore is
  not retried, after one \<^verbatim>\<open>beginTransaction\<close> and one \<^verbatim>\<open>rollback\<close>.
\<close>

theorem plain_value_rejected_without_commit:
  assumes "0 < maxAttempts"
    and "beginReply srv 0 = Inr tid"
    and "snd (updateFunction 0) = ReturnsPlain v"
  shows "CommitRpc \<notin> set (rpcs (emitted t (snd (runTransaction srv updateFunction maxAttempts t))))
       \<and> (rollbackReply srv 0 = None \<longrightarrow>
            fst (runTransaction srv updateFunction maxAttempts t)
              = Rejected (Some (Error ''You must return a Promise in your transaction()-callback.''
                                 None))
          \<and> rpcs (emitted t (snd (runTransaction srv updateFunction maxAttempts t)))
              = [BeginRpc, RollbackRpc])"
proof -
  let ?e = "Error ''You must return a Promise in your transaction()-callback.'' None"
  have lt: "int 0 < maxAttempts" using assms(1) by simp
  have c: "caught (commitReply srv 0) (snd (updateFunction 0)) = Some ?e"
    by (simp add: assms(3) caught_def)
  have nr: "\<not> isRetryableTransactionError ?e" by simp
  have step: "runTransaction srv updateFunction maxAttempts t =
      (case rollbackReply srv 0 of
         Some re \<Rightarrow> (Rejected (Some re), rolled_back srv updateFunction 0 None t)
       | None \<Rightarrow> (Rejected (Some ?e), rolled_back srv updateFunction 0 None t))"
    unfolding runTransaction_def using lt assms(2) c nr by (simp add: loop_caught)
  obtain mid where mid: "trace (rolled_back srv updateFunction 0 None t) =
       trace t @ backoff_calls None
       @ [BeginTransactionRequest (formattedName t) (transactionId t) (requestTag t)]
       @ mid @ [RollbackRequest (formattedName t) (Some tid) (requestTag t)]"
     "rpcs mid = (if commits (snd (updateFunction 0)) then [CommitRpc] else [])"
    using rolled_back_events[OF assms(2), of updateFunction None t] by auto
  have "rpcs (emitted t (rolled_back srv updateFunction 0 None t)) = [BeginRpc, RollbackRpc]"
    using mid(2) by (simp add: emitted_append[OF mid(1)] assms(3))
  then show ?thesis
    by (simp add: step split: option.splits)
qed

theorem plain_value_rejected_without_commit_witness:
  "runTransaction reliable_server returns_plain 3 (new_transaction ''db'' ''tag'')
     = (Rejected (Some (Error ''You must return a Promise in your transaction()-callback.'' None)),
        \<lparr> formattedName = ''db'', requestTag = ''tag'', transactionId = Some [0],
          ops = [WDelete ''col/doc''],
          trace = [BackoffAndWait, BeginTransactionRequest ''db'' None ''tag'',
                   RollbackRequest ''db'' (Some [0]) ''tag''] \<rparr>)"
proof -
  let ?t = "new_transaction ''db'' ''tag''"
  have h: "(0::int) < 3" "beginReply reliable_server 0 = Inr [0]"
    "snd (returns_plain 0) = ReturnsPlain 7"
    by (simp_all add: reliable_server_def returns_plain_def)
  have r: "rollbackReply reliable_server 0 = None"
    by (simp add: reliable_server_def)
  have res: "fst (runTransaction reliable_server returns_plain 3 ?t)
      = Rejected (Some (Error ''You must return a Promise in your transaction()-callback.'' None))"
    using plain_value_rejected_without_commit[where updateFunction=returns_plain
            and maxAttempts=3 and srv=reliable_server and t="?t", OF h] r
    by blast
  have st: "snd (runTransaction reliable_server returns_plain 3 ?t)
      = \<lparr> formattedName = ''db'', requestTag = ''tag'', transactionId = Some [0],
          ops = [WDelete ''col/doc''],
          trace = [BackoffAndWait, BeginTransactionRequest ''db'' None ''tag'',
                   RollbackRequest ''db'' (Some [0]) ''tag''] \<rparr>"
    unfolding runTransaction_def
    by (subst runTransaction_loop.simps)
       (simp add: reliable_server_def returns_plain_def new_transaction_def reset_def
          maybeBackoff_def begin_tx_def try_block_def rollback_def record_write_def emit_def)
  show ?thesis
    using res st by (simp add: prod_eq_iff)
qed

end
